theory Spec2Isabelle
  imports Main
begin

section \<open>JavaScript values and the object store\<close>

text \<open>
  The component receives plain data objects from the page query. Objects live in a
  store and are referred to by address, so that a write to an object would be visible
  in the store returned by a computation. A number is kept as an integer: the
  component never computes with one.
\<close>

type_synonym addr = nat

datatype jsval =
    JUndefined
  | JNull
  | JBool bool
  | JNum int
  | JStr string
  | JRef addr

type_synonym object = "string \<rightharpoonup> jsval"

type_synonym heap = "addr \<Rightarrow> object"

text \<open>
  What the code throws: the TypeError of a property read on \<open>undefined\<close> or \<open>null\<close>
  (with the property's name), and an \<open>Error\<close> made with \<open>new Error(message)\<close>.
\<close>

datatype error = TypeError string | Error string

text \<open>
  A computation takes the store and returns a value or a thrown error, with the store
  it leaves behind.
\<close>

type_synonym 'a js = "heap \<Rightarrow> (error + 'a) \<times> heap"

definition unit_js :: "'a \<Rightarrow> 'a js" where
  "unit_js x = (\<lambda>h. (Inr x, h))"

definition throw :: "error \<Rightarrow> 'a js" where
  "throw e = (\<lambda>h. (Inl e, h))"

definition bind :: "'a js \<Rightarrow> ('a \<Rightarrow> 'b js) \<Rightarrow> 'b js" where
  "bind m f = (\<lambda>h. case m h of (Inl e, h') \<Rightarrow> (Inl e, h') | (Inr x, h') \<Rightarrow> f x h')"

text \<open>
  The member expression \<open>v.k\<close>. Reading a property of \<open>undefined\<close> or \<open>null\<close> throws
  a TypeError (the error records the property being read). An object yields the stored
  value, or \<open>undefined\<close> when it has no such property. A boolean, number or string
  yields \<open>undefined\<close>: none of the names the component reads (\<open>slug\<close>, \<open>title\<close>,
  \<open>excerpt\<close>, \<open>image\<close>, \<open>sharp\<close>, \<open>fluid\<close>) is a property of a primitive's prototype.
\<close>

definition get :: "jsval \<Rightarrow> string \<Rightarrow> jsval js" where
  "get v k =
     (case v of
        JUndefined \<Rightarrow> throw (TypeError k)
      | JNull \<Rightarrow> throw (TypeError k)
      | JRef a \<Rightarrow> (\<lambda>h. (Inr (case h a k of None \<Rightarrow> JUndefined | Some x \<Rightarrow> x), h))
      | _ \<Rightarrow> unit_js JUndefined)"

section \<open>View descriptions\<close>

text \<open>
  A JSX element is a tag (a host tag such as \<open>article\<close>, or a component such as
  \<open>Link\<close>), its attributes in source order, and its children. An attribute is either
  a style made by the \<open>css\<close> template (kept as the lines of the template, trimmed) or
  the value of an expression. A child is an element or the value of an expression
  in braces.
\<close>

datatype attr = Css "string list" | Expr jsval

datatype element =
    Element string "(string \<times> attr) list" "element list"
  | Child jsval

section \<open>The post preview component (src/components/post-preview.js)\<close>

record props =
  post :: jsval

definition article_css :: "string list" where
  "article_css =
     [''border-bottom: 1px solid #ddd;'',
      ''margin-top: 0.75rem;'',
      ''padding-bottom: 1rem;'',
      '':first-of-type {'',
      ''margin-top: 1rem;'',
      ''}'']"

definition thumbnail_css :: "string list" where
  "thumbnail_css =
     [''margin: 1rem 1rem 0 0;'',
      ''width: 100px;'']"

text \<open>
  The body of \<open>PostPreview\<close>: the property reads happen in the order in which the
  JSX expression evaluates them, and the first one that throws ends the rendering.
  The \<open>ReadLink\<close> at the end of the article is commented out in the source and
  produces no child.
\<close>

definition PostPreview :: "props \<Rightarrow> element js" where
  "PostPreview p =
     bind (get (post p) ''slug'') (\<lambda>slug1.
     bind (get (post p) ''title'') (\<lambda>title1.
     bind (get (post p) ''image'') (\<lambda>image.
     bind (get image ''sharp'') (\<lambda>sharp.
     bind (get sharp ''fluid'') (\<lambda>fluid.
     bind (get (post p) ''slug'') (\<lambda>slug2.
     bind (get (post p) ''title'') (\<lambda>title2.
     bind (get (post p) ''excerpt'') (\<lambda>excerpt.
     unit_js
       (Element ''article'' [(''css'', Css article_css)]
          [Element ''Link'' [(''to'', Expr slug1), (''css'', Css thumbnail_css)]
             [Element ''Image'' [(''alt'', Expr title1), (''fluid'', Expr fluid)] []],
           Element ''h3'' []
             [Element ''Link'' [(''to'', Expr slug2)] [Child title2]],
           Element ''p'' [] [Child excerpt]])))))))))"

text \<open>What a property read returns when it does not throw.\<close>

definition field :: "heap \<Rightarrow> jsval \<Rightarrow> string \<Rightarrow> jsval" where
  "field h v k = (case v of JRef a \<Rightarrow> (case h a k of None \<Rightarrow> JUndefined | Some x \<Rightarrow> x)
                          | _ \<Rightarrow> JUndefined)"

definition nullish :: "jsval \<Rightarrow> bool" where
  "nullish v = (v = JUndefined \<or> v = JNull)"

text \<open>An object provides a field when the field is one of its own properties.\<close>

definition provides :: "heap \<Rightarrow> jsval \<Rightarrow> string \<Rightarrow> bool" where
  "provides h v k = (case v of JRef a \<Rightarrow> h a k \<noteq> None | _ \<Rightarrow> False)"

text \<open>
  The post summaries the page query delivers: the post is an object, its \<open>image\<close> is
  a file node and the node's \<open>sharp\<close> is the processed image (which carries \<open>fluid\<close>).
\<close>

definition renderable :: "heap \<Rightarrow> jsval \<Rightarrow> bool" where
  "renderable h v =
     (\<not> nullish v \<and> \<not> nullish (field h v ''image'') \<and>
      \<not> nullish (field h (field h v ''image'') ''sharp''))"

text \<open>All \<open>Link\<close> elements of a view, in document order.\<close>

fun links :: "element \<Rightarrow> element list" where
  "links (Child v) = []"
| "links (Element t as cs) =
     (if t = ''Link'' then [Element t as cs] else []) @ concat (map links cs)"

text \<open>Reading a view: an element's tag, one of its attributes, its children.\<close>

fun tag :: "element \<Rightarrow> string" where
  "tag (Element t as cs) = t"
| "tag (Child v) = []"

fun attribute :: "element \<Rightarrow> string \<Rightarrow> attr option" where
  "attribute (Element t as cs) k = map_of as k"
| "attribute (Child v) k = None"

fun children :: "element \<Rightarrow> element list" where
  "children (Element t as cs) = cs"
| "children (Child v) = []"

subsection \<open>Two post summaries\<close>

text \<open>
  The summary of the first post as the page query delivers it: the post object at
  address 0, its image's file node at 1, the processed image at 2 and the \<open>fluid\<close>
  data at 3.
\<close>

definition first_post_summary :: heap where
  "first_post_summary =
     (\<lambda>a. Map.empty)
       (0 := [''slug'' \<mapsto> JStr ''first-post'',
              ''title'' \<mapsto> JStr ''React State Management with Hooks and Context API'',
              ''excerpt'' \<mapsto> JStr ''Managing state is an important part of an application.'',
              ''image'' \<mapsto> JRef 1],
        1 := [''sharp'' \<mapsto> JRef 2],
        2 := [''fluid'' \<mapsto> JRef 3],
        3 := [''src'' \<mapsto> JStr ''/static/maarten-deckers.jpg'', ''aspectRatio'' \<mapsto> JNum 1])"

text \<open>
  The same summary for an image file that the image processor does not handle: the
  file node is there, its \<open>sharp\<close> is \<open>null\<close>.
\<close>

definition unprocessed_image_summary :: heap where
  "unprocessed_image_summary = first_post_summary (1 := [''sharp'' \<mapsto> JNull])"

section \<open>The movie list of the first post (content/blog/2020-first-post/2020-first-post.mdx)\<close>

subsection \<open>State and actions\<close>

text \<open>
  A movie is an object with an \<open>id\<close> (a uuid string), a \<open>watched\<close> flag and further
  fields (\<open>title\<close>, \<open>year\<close>) that the reducer only copies: they are the record's
  extension. The state holds the list of movies and may hold more fields (the post
  names a loading status and an error), again the record's extension. The field \<open>id\<close>
  is written \<open>id'\<close>.
\<close>

record movie =
  id' :: string
  watched :: bool

record 'm state =
  movies :: "'m movie_scheme list"

definition ADD_MOVIE :: string where
  "ADD_MOVIE = ''ADD_MOVIE''"

definition MARK_WATCHED_MOVIE :: string where
  "MARK_WATCHED_MOVIE = ''MARK_WATCHED_MOVIE''"

text \<open>
  An action is an object with a \<open>type\<close> string and a payload whose shape goes with the
  type: a movie for \<open>ADD_MOVIE\<close>, the object \<open>{ id }\<close> for \<open>MARK_WATCHED_MOVIE\<close>. Every
  other type string is an action of its own, whose payload the reducer never reads.
\<close>

typedef other_type = "{t :: string. t \<noteq> ''ADD_MOVIE'' \<and> t \<noteq> ''MARK_WATCHED_MOVIE''}"
  by (rule exI [of _ "[]"]) simp

datatype 'm action =
    AddMovie "'m movie_scheme"
  | MarkWatchedMovie string
  | Unsupported other_type

fun type' :: "'m action \<Rightarrow> string" where
  "type' (AddMovie payload) = ADD_MOVIE"
| "type' (MarkWatchedMovie i) = MARK_WATCHED_MOVIE"
| "type' (Unsupported t) = Rep_other_type t"

subsection \<open>The reducer, and the functions of the hook that dispatch to it\<close>

text \<open>
  \<open>moviesReducer\<close> as the post gives it last (with both cases). The switch on
  \<open>action.type\<close> is the case distinction on the action: \<open>case ADD_MOVIE\<close>,
  \<open>case MARK_WATCHED_MOVIE\<close>, \<open>default\<close>. The spread \<open>{ ...state, movies }\<close> is a record
  update, and so is \<open>{ ...movie, watched: !movie.watched }\<close>.
\<close>

fun moviesReducer ::
  "('m, 's) state_scheme \<Rightarrow> 'm action \<Rightarrow> error + ('m, 's) state_scheme" where
  "moviesReducer state (AddMovie payload) =
     Inr (state\<lparr>movies := payload # movies state\<rparr>)"
| "moviesReducer state (MarkWatchedMovie i) =
     Inr (state\<lparr>movies :=
            map (\<lambda>movie. if id' movie = i then movie\<lparr>watched := \<not> watched movie\<rparr>
                          else movie)
              (movies state)\<rparr>)"
| "moviesReducer state (Unsupported t) =
     Inl (Error (''Action is not supported: '' @ Rep_other_type t))"

text \<open>
  \<open>dispatch\<close> comes from React's \<open>useReducer\<close>: the next state is the reducer applied
  to the current state and the action.
\<close>

definition dispatch ::
  "('m, 's) state_scheme \<Rightarrow> 'm action \<Rightarrow> error + ('m, 's) state_scheme" where
  "dispatch state action = moviesReducer state action"

text \<open>
  \<open>addMovie\<close> assigns \<open>id\<close> and \<open>watched\<close> on the object it is given (the form's
  fields stay as they are) and dispatches it. \<open>uuidv4\<close> belongs to a library: it is a
  parameter here, a generator that is threaded through.
\<close>

definition addMovie ::
  "('g \<Rightarrow> string \<times> 'g) \<Rightarrow> 'm \<Rightarrow> 'g \<Rightarrow> ('m, 's) state_scheme
     \<Rightarrow> (error + ('m, 's) state_scheme) \<times> 'g" where
  "addMovie uuidv4 movie g state =
     (case uuidv4 g of
        (i, g') \<Rightarrow>
          (dispatch state (AddMovie \<lparr>id' = i, watched = False, \<dots> = movie\<rparr>), g'))"

definition markWatchedMovie ::
  "string \<Rightarrow> ('m, 's) state_scheme \<Rightarrow> error + ('m, 's) state_scheme" where
  "markWatchedMovie i state = dispatch state (MarkWatchedMovie i)"

text \<open>The form of \<open>NewMovie\<close>, whose value \<open>handleSubmit\<close> passes to \<open>addMovie\<close>.\<close>

record form =
  title :: string
  year :: string

definition getInitialMovieForm :: form where
  "getInitialMovieForm = \<lparr>title = [], year = []\<rparr>"

subsection \<open>A state of the movie list\<close>

text \<open>
  Two movies as \<open>initialMovies\<close> lists them, the second one watched; the further fields
  are those of the form.
\<close>

definition watch_list :: "form state" where
  "watch_list =
     \<lparr>movies =
        [\<lparr>id' = ''a1'', watched = False, title = ''The Godfather'', year = ''1972''\<rparr>,
         \<lparr>id' = ''b2'', watched = True, title = ''Inception'', year = ''2010''\<rparr>]\<rparr>"

section \<open>Content files\<close>

text \<open>
  A content file is its lines. The repository has one, the first post; its first six
  lines are the metadata header, and the narrative that follows them is a parameter.
\<close>

definition quoted :: "string \<Rightarrow> string" where
  "quoted s = CHR 0x27 # s @ [CHR 0x27]"

definition first_post_header :: "string list" where
  "first_post_header =
     [''---'',
      ''title: '' @ quoted ''React State Management with Hooks and Context API'',
      ''slug: '' @ quoted ''first-post'',
      ''author: '' @ quoted ''Binh Tran'',
      ''image: ./images/maarten-deckers.jpg'',
      ''---'']"

definition first_post :: "string list \<Rightarrow> string list" where
  "first_post narrative = first_post_header @ narrative"

definition content_files :: "string list \<Rightarrow> string list list" where
  "content_files narrative = [first_post narrative]"

text \<open>
  The header is the block between a first line \<open>---\<close> and the next line \<open>---\<close>, one
  \<open>key: value\<close> per line; the body is what follows the closing line.
\<close>

definition key_value :: "string \<Rightarrow> (string \<times> string) option" where
  "key_value l =
     (if CHR '':'' \<in> set l
      then Some (takeWhile (\<lambda>c. c \<noteq> CHR '':'') l,
                 dropWhile (\<lambda>c. c = CHR '' '') (tl (dropWhile (\<lambda>c. c \<noteq> CHR '':'') l)))
      else None)"

definition frontmatter :: "string list \<Rightarrow> (string \<times> string) list option" where
  "frontmatter ls =
     (case ls of
        [] \<Rightarrow> None
      | l # rest \<Rightarrow>
          if l = ''---'' \<and> ''---'' \<in> set rest
          then Some (List.map_filter key_value (takeWhile (\<lambda>x. x \<noteq> ''---'') rest))
          else None)"

definition body :: "string list \<Rightarrow> string list" where
  "body ls = tl (dropWhile (\<lambda>x. x \<noteq> ''---'') (tl ls))"

definition header_provides :: "string list \<Rightarrow> string \<Rightarrow> bool" where
  "header_provides ls k =
     (case frontmatter ls of
        None \<Rightarrow> False
      | Some kvs \<Rightarrow> (case map_of kvs k of None \<Rightarrow> False | Some v \<Rightarrow> v \<noteq> []))"

section \<open>Properties of the post preview\<close>

subsection \<open>Property reads\<close>

lemma get_store: "snd (get v k h) = h"
  by (cases v) (simp_all add: get_def throw_def unit_js_def)

lemma unit_store: "snd (unit_js x h) = h"
  by (simp add: unit_js_def)

lemma bind_store:
  assumes "\<And>h. snd (m h) = h" and "\<And>x h. snd (f x h) = h"
  shows "snd (bind m f h) = h"
proof (cases "m h")
  case (Pair r h')
  from assms(1) [of h] Pair have "h' = h" by simp
  with Pair assms(2) show ?thesis
    by (cases r) (simp_all add: bind_def)
qed

lemma PostPreview_store: "snd (PostPreview p h) = h"
  unfolding PostPreview_def
  by (intro bind_store get_store unit_store)

lemma get_value: "\<not> nullish v \<Longrightarrow> get v k h = (Inr (field h v k), h)"
  by (cases v) (simp_all add: get_def nullish_def field_def unit_js_def)

lemma get_nullish: "nullish v \<Longrightarrow> get v k h = (Inl (TypeError k), h)"
  by (cases v) (simp_all add: get_def nullish_def throw_def)

lemma bind_value: "m h = (Inr x, h') \<Longrightarrow> bind m f h = f x h'"
  by (simp add: bind_def)

lemma bind_error: "m h = (Inl e, h') \<Longrightarrow> bind m f h = (Inl e, h')"
  by (simp add: bind_def)

lemma sharp_renderable:
  "\<not> nullish (field h (field h v ''image'') ''sharp'') \<Longrightarrow> renderable h v"
  by (cases v; cases "field h v ''image''") (simp_all add: renderable_def nullish_def field_def)

subsection \<open>What the component returns\<close>

text \<open>
  On a renderable post the eight reads succeed and the article is built from their
  values; on any other post one of the reads of \<open>post.image.sharp.fluid\<close> (or the first
  read of the post itself) throws.
\<close>

lemma PostPreview_renderable:
  assumes "renderable h (post p)"
  shows "PostPreview p h =
    (Inr (Element ''article'' [(''css'', Css article_css)]
          [Element ''Link''
             [(''to'', Expr (field h (post p) ''slug'')), (''css'', Css thumbnail_css)]
             [Element ''Image''
                [(''alt'', Expr (field h (post p) ''title'')),
                 (''fluid'',
                  Expr (field h (field h (field h (post p) ''image'') ''sharp'') ''fluid''))]
                []],
           Element ''h3'' []
             [Element ''Link'' [(''to'', Expr (field h (post p) ''slug''))]
                [Child (field h (post p) ''title'')]],
           Element ''p'' [] [Child (field h (post p) ''excerpt'')]]), h)"
  using assms unfolding PostPreview_def renderable_def
  by (simp add: bind_value get_value unit_js_def)

lemma PostPreview_not_renderable:
  assumes "\<not> renderable h (post p)"
  shows "\<exists>k. PostPreview p h = (Inl (TypeError k), h)"
proof (cases "nullish (post p)")
  case True
  then show ?thesis
    unfolding PostPreview_def by (simp add: bind_error get_nullish)
next
  case False
  note object = this
  show ?thesis
  proof (cases "nullish (field h (post p) ''image'')")
    case True
    with object show ?thesis
      unfolding PostPreview_def
      by (simp add: bind_error bind_value get_value get_nullish)
  next
    case False
    with object assms have "nullish (field h (field h (post p) ''image'') ''sharp'')"
      by (simp add: renderable_def)
    with object False show ?thesis
      unfolding PostPreview_def
      by (simp add: bind_error bind_value get_value get_nullish)
  qed
qed

text \<open>
  C1. For every valid post summary the view has exactly two \<open>Link\<close> elements, both with
  the summary's slug as their target \<open>to\<close>: the first wraps the thumbnail \<open>Image\<close>, the
  second wraps the title.
\<close>

theorem PostPreview_links:
  assumes "renderable h (post p)"
  shows "\<exists>v thumbnail heading image.
           PostPreview p h = (Inr v, h) \<and>
           links v = [thumbnail, heading] \<and>
           attribute thumbnail ''to'' = Some (Expr (field h (post p) ''slug'')) \<and>
           attribute heading ''to'' = Some (Expr (field h (post p) ''slug'')) \<and>
           children thumbnail = [image] \<and> tag image = ''Image'' \<and>
           children heading = [Child (field h (post p) ''title'')]"
  using PostPreview_renderable [OF assms] by simp

theorem PostPreview_links_witness:
  "\<exists>v thumbnail heading.
     PostPreview \<lparr>post = JRef 0\<rparr> first_post_summary = (Inr v, first_post_summary) \<and>
     links v = [thumbnail, heading] \<and>
     attribute thumbnail ''to'' = Some (Expr (JStr ''first-post'')) \<and>
     attribute heading ''to'' = Some (Expr (JStr ''first-post''))"
proof -
  have r: "renderable first_post_summary (post \<lparr>post = JRef 0\<rparr>)"
    by (simp add: renderable_def first_post_summary_def field_def nullish_def)
  have s: "field first_post_summary (post \<lparr>post = JRef 0\<rparr>) ''slug'' = JStr ''first-post''"
    by (simp add: first_post_summary_def field_def)
  from PostPreview_links [OF r] show ?thesis
    unfolding s by blast
qed

text \<open>
  C2. Rendering is pure: it returns the store it was given, so a second rendering of the
  same props, run after the first, returns the same result and again the same store.
\<close>

theorem PostPreview_pure:
  "snd (PostPreview p h) = h \<and>
   fst (PostPreview p (snd (PostPreview p h))) = fst (PostPreview p h) \<and>
   snd (PostPreview p (snd (PostPreview p h))) = h"
  by (simp add: PostPreview_store)

text \<open>
  C3, as stated, fails: a post summary that provides \<open>slug\<close>, \<open>title\<close>, \<open>excerpt\<close> and
  \<open>image\<close>, and whose image has \<open>sharp\<close> equal to \<open>null\<close>, makes the read of
  \<open>post.image.sharp.fluid\<close> throw a TypeError.
\<close>

theorem PostPreview_needs_sharp:
  "provides unprocessed_image_summary (JRef 0) ''slug'' \<and>
   provides unprocessed_image_summary (JRef 0) ''title'' \<and>
   provides unprocessed_image_summary (JRef 0) ''excerpt'' \<and>
   provides unprocessed_image_summary (JRef 0) ''image'' \<and>
   fst (PostPreview \<lparr>post = JRef 0\<rparr> unprocessed_image_summary) = Inl (TypeError ''fluid'')"
  by (simp add: provides_def unprocessed_image_summary_def first_post_summary_def
      PostPreview_def bind_def get_def throw_def unit_js_def)

text \<open>
  C3, amended. For every post summary that provides \<open>slug\<close>, \<open>title\<close>, \<open>excerpt\<close> and
  \<open>image\<close>, and whose image holds a \<open>sharp\<close> that is neither \<open>null\<close> nor \<open>undefined\<close>, the
  renderer returns a view and raises nothing. The view is one function \<open>f\<close> of
  \<open>post.slug\<close>, \<open>post.title\<close>, \<open>post.excerpt\<close> and \<open>post.image.sharp.fluid\<close>: the renderer
  uses nothing else of its input.
\<close>

theorem PostPreview_succeeds:
  "\<exists>f. \<forall>p h.
     provides h (post p) ''slug'' \<and> provides h (post p) ''title'' \<and>
     provides h (post p) ''excerpt'' \<and> provides h (post p) ''image'' \<and>
     \<not> nullish (field h (field h (post p) ''image'') ''sharp'') \<longrightarrow>
     PostPreview p h =
       (Inr (f (field h (post p) ''slug'') (field h (post p) ''title'')
               (field h (post p) ''excerpt'')
               (field h (field h (field h (post p) ''image'') ''sharp'') ''fluid'')), h)"
proof -
  let ?f = "\<lambda>slug title excerpt fluid.
    Element ''article'' [(''css'', Css article_css)]
          [Element ''Link'' [(''to'', Expr slug), (''css'', Css thumbnail_css)]
             [Element ''Image'' [(''alt'', Expr title), (''fluid'', Expr fluid)] []],
           Element ''h3'' [] [Element ''Link'' [(''to'', Expr slug)] [Child title]],
           Element ''p'' [] [Child excerpt]]"
  show ?thesis
    by (rule exI [of _ ?f]) (simp add: PostPreview_renderable sharp_renderable)
qed

theorem PostPreview_succeeds_witness:
  "\<exists>v. PostPreview \<lparr>post = JRef 0\<rparr> first_post_summary = (Inr v, first_post_summary)"
proof -
  have "provides first_post_summary (post \<lparr>post = JRef 0\<rparr>) ''slug'' \<and>
        provides first_post_summary (post \<lparr>post = JRef 0\<rparr>) ''title'' \<and>
        provides first_post_summary (post \<lparr>post = JRef 0\<rparr>) ''excerpt'' \<and>
        provides first_post_summary (post \<lparr>post = JRef 0\<rparr>) ''image'' \<and>
        \<not> nullish (field first_post_summary
                      (field first_post_summary (post \<lparr>post = JRef 0\<rparr>) ''image'') ''sharp'')"
    by (simp add: provides_def first_post_summary_def field_def nullish_def)
  with PostPreview_succeeds show ?thesis by blast
qed

text \<open>
  C4. For every valid post summary the view is an \<open>article\<close> of three children: a \<open>Link\<close>
  around the \<open>Image\<close> that shows \<open>post.image.sharp.fluid\<close> (with the title as its \<open>alt\<close>),
  an \<open>h3\<close> whose \<open>Link\<close> has the title as its text, and a \<open>p\<close> with the excerpt.
\<close>

theorem PostPreview_content:
  assumes "renderable h (post p)"
  shows "\<exists>v thumbnail heading.
           PostPreview p h = (Inr v, h) \<and>
           tag v = ''article'' \<and>
           children v =
             [thumbnail, heading, Element ''p'' [] [Child (field h (post p) ''excerpt'')]] \<and>
           tag thumbnail = ''Link'' \<and>
           children thumbnail =
             [Element ''Image''
                [(''alt'', Expr (field h (post p) ''title'')),
                 (''fluid'',
                  Expr (field h (field h (field h (post p) ''image'') ''sharp'') ''fluid''))]
                []] \<and>
           heading = Element ''h3'' []
             [Element ''Link'' [(''to'', Expr (field h (post p) ''slug''))]
                [Child (field h (post p) ''title'')]]"
  using PostPreview_renderable [OF assms] by simp

theorem PostPreview_content_witness:
  "\<exists>v thumbnail.
     PostPreview \<lparr>post = JRef 0\<rparr> first_post_summary = (Inr v, first_post_summary) \<and>
     children v =
       [thumbnail,
        Element ''h3'' []
          [Element ''Link'' [(''to'', Expr (JStr ''first-post''))]
             [Child (JStr ''React State Management with Hooks and Context API'')]],
        Element ''p'' []
          [Child (JStr ''Managing state is an important part of an application.'')]] \<and>
     children thumbnail =
       [Element ''Image''
          [(''alt'', Expr (JStr ''React State Management with Hooks and Context API'')),
           (''fluid'', Expr (JRef 3))] []]"
proof -
  have r: "renderable first_post_summary (post \<lparr>post = JRef 0\<rparr>)"
    by (simp add: renderable_def first_post_summary_def field_def nullish_def)
  have s: "field first_post_summary (post \<lparr>post = JRef 0\<rparr>) ''slug'' = JStr ''first-post''"
     "field first_post_summary (post \<lparr>post = JRef 0\<rparr>) ''title'' =
        JStr ''React State Management with Hooks and Context API''"
     "field first_post_summary (post \<lparr>post = JRef 0\<rparr>) ''excerpt'' =
        JStr ''Managing state is an important part of an application.''"
     "field first_post_summary (field first_post_summary
        (field first_post_summary (post \<lparr>post = JRef 0\<rparr>) ''image'') ''sharp'') ''fluid'' = JRef 3"
    by (simp_all add: first_post_summary_def field_def)
  from PostPreview_content [OF r] show ?thesis
    unfolding s by blast
qed

text \<open>
  C5. Rendering writes to no object: after it, every property of every object in the
  store (the post, its image, and all others) has the value it had before.
\<close>

theorem PostPreview_no_mutation:
  "\<forall>a k. snd (PostPreview p h) a k = h a k"
  by (simp add: PostPreview_store)

section \<open>Properties of the content files\<close>

lemma first_post_frontmatter:
  "frontmatter (first_post narrative) =
     Some [(''title'', quoted ''React State Management with Hooks and Context API''),
           (''slug'', quoted ''first-post''),
           (''author'', quoted ''Binh Tran''),
           (''image'', ''./images/maarten-deckers.jpg'')]"
  by (simp add: frontmatter_def first_post_def first_post_header_def key_value_def
      List.map_filter_simps quoted_def)

lemma first_post_body: "body (first_post narrative) = narrative"
  by (simp add: body_def first_post_def first_post_header_def)

text \<open>
  C6. Every content file has a header that provides a title, a slug, an author and an
  image path, and the narrative follows the header as it is.
\<close>

theorem content_files_header:
  "\<forall>f \<in> set (content_files narrative).
     header_provides f ''title'' \<and> header_provides f ''slug'' \<and>
     header_provides f ''author'' \<and> header_provides f ''image'' \<and>
     body f = narrative"
  by (simp add: content_files_def header_provides_def first_post_frontmatter first_post_body
      quoted_def)

theorem content_files_header_witness:
  "header_provides (first_post [[], ''![maarten-deckers](./images/maarten-deckers.jpg)'']) ''title'' \<and>
   header_provides (first_post [[], ''![maarten-deckers](./images/maarten-deckers.jpg)'']) ''slug'' \<and>
   header_provides (first_post [[], ''![maarten-deckers](./images/maarten-deckers.jpg)'']) ''author'' \<and>
   header_provides (first_post [[], ''![maarten-deckers](./images/maarten-deckers.jpg)'']) ''image'' \<and>
   body (first_post [[], ''![maarten-deckers](./images/maarten-deckers.jpg)'']) =
     [[], ''![maarten-deckers](./images/maarten-deckers.jpg)'']"
  using content_files_header [of "[[], ''![maarten-deckers](./images/maarten-deckers.jpg)'']"]
  by (simp add: content_files_def)

section \<open>Properties of the movie list reducer\<close>

lemma toggle_map_twice:
  "map (\<lambda>movie. if id' movie = i then movie\<lparr>watched := \<not> watched movie\<rparr> else movie)
     (map (\<lambda>movie. if id' movie = i then movie\<lparr>watched := \<not> watched movie\<rparr> else movie) ms)
   = ms"
  by (induction ms) simp_all

text \<open>
  C7. \<open>MARK_WATCHED_MOVIE\<close> toggles: from every state and for every id the reducer
  returns a state from which the same action leads back to the original one. The list
  keeps its length and the order of its ids; a movie with another id stays as it is, and
  a movie with the payload's id has its \<open>watched\<close> flag negated.
\<close>

theorem mark_watched_toggles:
  "\<exists>state'.
     moviesReducer state (MarkWatchedMovie i) = Inr state' \<and>
     moviesReducer state' (MarkWatchedMovie i) = Inr state \<and>
     length (movies state') = length (movies state) \<and>
     map id' (movies state') = map id' (movies state) \<and>
     (\<forall>k < length (movies state).
        (id' (movies state ! k) \<noteq> i \<longrightarrow> movies state' ! k = movies state ! k) \<and>
        (id' (movies state ! k) = i \<longrightarrow>
           movies state' ! k = (movies state ! k)\<lparr>watched := \<not> watched (movies state ! k)\<rparr>))"
proof -
  let ?f = "\<lambda>movie :: 'a movie_scheme.
              if id' movie = i then movie\<lparr>watched := \<not> watched movie\<rparr> else movie"
  let ?state' = "state\<lparr>movies := map ?f (movies state)\<rparr>"
  have once: "moviesReducer state (MarkWatchedMovie i) = Inr ?state'"
    by simp
  have "map ?f (map ?f (movies state)) = movies state"
    by (rule toggle_map_twice)
  then have twice: "moviesReducer ?state' (MarkWatchedMovie i) = Inr state"
    by simp
  have ids: "map id' (movies ?state') = map id' (movies state)"
    by (simp add: comp_def)
  have each: "\<forall>k < length (movies state).
        (id' (movies state ! k) \<noteq> i \<longrightarrow> movies ?state' ! k = movies state ! k) \<and>
        (id' (movies state ! k) = i \<longrightarrow>
           movies ?state' ! k = (movies state ! k)\<lparr>watched := \<not> watched (movies state ! k)\<rparr>)"
    by simp
  from once twice ids each show ?thesis
    by (intro exI [of _ ?state']) simp
qed

theorem mark_watched_toggles_witness:
  "moviesReducer watch_list (MarkWatchedMovie ''a1'') =
     Inr \<lparr>movies =
        [\<lparr>id' = ''a1'', watched = True, title = ''The Godfather'', year = ''1972''\<rparr>,
         \<lparr>id' = ''b2'', watched = True, title = ''Inception'', year = ''2010''\<rparr>]\<rparr> \<and>
   moviesReducer \<lparr>movies =
        [\<lparr>id' = ''a1'', watched = True, title = ''The Godfather'', year = ''1972''\<rparr>,
         \<lparr>id' = ''b2'', watched = True, title = ''Inception'', year = ''2010''\<rparr>]\<rparr>
      (MarkWatchedMovie ''a1'') = Inr watch_list"
  using mark_watched_toggles [of watch_list "''a1''"]
  by (simp add: watch_list_def)

text \<open>
  C8. \<open>ADD_MOVIE\<close> prepends: the new list is the payload followed by the old list, one
  longer. A movie added with \<open>addMovie\<close> is at the head of the new list with \<open>watched\<close>
  false and the id that this call of \<open>uuidv4\<close> returned, its other fields as given.
\<close>

theorem add_movie_prepends:
  "(\<exists>state'.
      moviesReducer state (AddMovie payload) = Inr state' \<and>
      movies state' = payload # movies state \<and>
      length (movies state') = Suc (length (movies state))) \<and>
   (\<exists>state'.
      addMovie uuidv4 movie g state = (Inr state', snd (uuidv4 g)) \<and>
      movies state' = \<lparr>id' = fst (uuidv4 g), watched = False, \<dots> = movie\<rparr> # movies state)"
  by (simp add: addMovie_def dispatch_def split: prod.splits)

text \<open>
  C9. The reducer throws \<open>Action is not supported\<close> for every action whose type is
  neither \<open>ADD_MOVIE\<close> nor \<open>MARK_WATCHED_MOVIE\<close>, and returns a state for every action of
  one of these two types.
\<close>

theorem unsupported_action_raises:
  "(type' action \<noteq> ADD_MOVIE \<and> type' action \<noteq> MARK_WATCHED_MOVIE \<longrightarrow>
      moviesReducer state action = Inl (Error (''Action is not supported: '' @ type' action))) \<and>
   (type' action = ADD_MOVIE \<or> type' action = MARK_WATCHED_MOVIE \<longrightarrow>
      (\<exists>state'. moviesReducer state action = Inr state'))"
proof (cases action)
  case (AddMovie payload)
  then show ?thesis by (simp add: ADD_MOVIE_def MARK_WATCHED_MOVIE_def)
next
  case (MarkWatchedMovie i)
  then show ?thesis by (simp add: ADD_MOVIE_def MARK_WATCHED_MOVIE_def)
next
  case (Unsupported t)
  with Rep_other_type [of t] show ?thesis
    by (simp add: ADD_MOVIE_def MARK_WATCHED_MOVIE_def)
qed

theorem unsupported_action_raises_witness:
  "moviesReducer watch_list (Unsupported (Abs_other_type ''REMOVE_MOVIE'')) =
     Inl (Error ''Action is not supported: REMOVE_MOVIE'') \<and>
   (\<exists>state'. moviesReducer watch_list (MarkWatchedMovie ''b2'') = Inr state') \<and>
   (\<exists>state'. moviesReducer watch_list
       (AddMovie \<lparr>id' = ''c3'', watched = False, title = ''Alien'', year = ''1979''\<rparr>) = Inr state')"
  using unsupported_action_raises [of "Unsupported (Abs_other_type ''REMOVE_MOVIE'')" watch_list]
    unsupported_action_raises [of "MarkWatchedMovie ''b2''" watch_list]
    unsupported_action_raises
      [of "AddMovie \<lparr>id' = ''c3'', watched = False, title = ''Alien'', year = ''1979''\<rparr>" watch_list]
  by (simp add: Abs_other_type_inverse ADD_MOVIE_def MARK_WATCHED_MOVIE_def)

end
